theory Spec2Isabelle
  imports Main "HOL-Library.AList"
begin

section \<open>Python text primitives used by \<^verbatim>\<open>ai_translator.py\<close>\<close>


definition is_space :: "char \<Rightarrow> bool" where
  "is_space c = (let n = (of_char c :: nat) in (9 \<le> n \<and> n \<le> 13) \<or> (28 \<le> n \<and> n \<le> 32))"

definition lower_char :: "char \<Rightarrow> char" where
  "lower_char c = (let n = (of_char c :: nat) in if 65 \<le> n \<and> n \<le> 90 then char_of (n + 32) else c)"

definition upper_char :: "char \<Rightarrow> char" where
  "upper_char c = (let n = (of_char c :: nat) in if 97 \<le> n \<and> n \<le> 122 then char_of (n - 32) else c)"

definition is_quote :: "char \<Rightarrow> bool" where
  "is_quote c = (c = CHR 0x22 \<or> c = CHR 0x27)"

text \<open>\<^verbatim>\<open>text.strip()\<close>: leading and trailing whitespace removed.\<close>

definition py_strip :: "string \<Rightarrow> string" where
  "py_strip s = rev (dropWhile is_space (rev (dropWhile is_space s)))"

text \<open>\<^verbatim>\<open>text.lower()\<close>, \<^verbatim>\<open>text.upper()\<close> and \<^verbatim>\<open>w.capitalize()\<close>.\<close>

definition py_lower :: "string \<Rightarrow> string" where
  "py_lower s = map lower_char s"

definition py_upper :: "string \<Rightarrow> string" where
  "py_upper s = map upper_char s"

fun capitalize :: "string \<Rightarrow> string" where
  "capitalize [] = []"
| "capitalize (c # cs) = upper_char c # map lower_char cs"

text \<open>
  \<^verbatim>\<open>re.sub(r'[C]+', rep, text)\<close> for a character class \<open>C\<close>: every maximal run of
  characters of the class is replaced by \<open>rep\<close>.
\<close>

function sub_runs :: "(char \<Rightarrow> bool) \<Rightarrow> string \<Rightarrow> string \<Rightarrow> string" where
  "sub_runs P rep [] = []"
| "sub_runs P rep (c # cs) =
     (if P c then rep @ sub_runs P rep (dropWhile P cs) else c # sub_runs P rep cs)"
  by pat_completeness auto
termination
  by (relation "measure (\<lambda>(P, rep, s). length s)") (auto simp: length_dropWhile_le less_Suc_eq_le)

text \<open>
  \<^verbatim>\<open>re.split(r'[C]+', text)\<close>: the pieces between the maximal runs of the class; a run
  at either end leaves an empty piece there, and the empty text splits into one empty piece.
\<close>

function split_runs :: "(char \<Rightarrow> bool) \<Rightarrow> string \<Rightarrow> string list" where
  "split_runs P [] = [[]]"
| "split_runs P (c # cs) =
     (if P c then [] # split_runs P (dropWhile P cs)
      else (case split_runs P cs of [] \<Rightarrow> [[c]] | w # ws \<Rightarrow> (c # w) # ws))"
  by pat_completeness auto
termination
  by (relation "measure (\<lambda>(P, s). length s)") (auto simp: length_dropWhile_le less_Suc_eq_le)

text \<open>The three separator classes of the formatter's patterns.\<close>

definition space_underscore :: "char \<Rightarrow> bool" where
  "space_underscore c = (is_space c \<or> c = CHR ''_'')"

definition space_hyphen :: "char \<Rightarrow> bool" where
  "space_hyphen c = (is_space c \<or> c = CHR ''-'')"

definition space_underscore_hyphen :: "char \<Rightarrow> bool" where
  "space_underscore_hyphen c = (is_space c \<or> c = CHR ''_'' \<or> c = CHR ''-'')"

section \<open>The output formatter: \<^verbatim>\<open>Translator._format_output\<close>\<close>

text \<open>The first three statements of \<^verbatim>\<open>_format_output\<close>: strip and lowercase, drop quotes,
  collapse whitespace runs to one blank.\<close>

definition clean_text :: "string \<Rightarrow> string" where
  "clean_text raw = sub_runs is_space '' '' (filter (\<lambda>c. \<not> is_quote c) (py_lower (py_strip raw)))"

text \<open>
  The format is the string held in \<^verbatim>\<open>self.output_format\<close>; the branches are compared
  in the source's order, and any other format string falls through to the cleaned text.
  \<^verbatim>\<open>re.split\<close> never returns an empty list, so \<^verbatim>\<open>words[0]\<close> cannot raise; the model
  returns the empty string in that unreachable case.
\<close>

definition format_output :: "string \<Rightarrow> string \<Rightarrow> string" where
  "format_output fmt raw =
     (let text = clean_text raw in
      if fmt = ''kebab-case'' then sub_runs space_underscore ''-'' text
      else if fmt = ''snake_case'' then sub_runs space_hyphen ''_'' text
      else if fmt = ''camelCase'' then
        (case split_runs space_underscore_hyphen text of
           [] \<Rightarrow> []
         | w # ws \<Rightarrow> w @ concat (map capitalize ws))
      else if fmt = ''PascalCase'' then
        concat (map capitalize (split_runs space_underscore_hyphen text))
      else if fmt = ''lowercase'' then sub_runs space_underscore_hyphen [] text
      else if fmt = ''UPPERCASE'' then py_upper (sub_runs space_underscore_hyphen ''_'' text)
      else text)"

section \<open>The cache store: \<^verbatim>\<open>TranslationCache\<close>\<close>

text \<open>
  A Python \<^verbatim>\<open>dict\<close> is an association list in insertion order: \<^const>\<open>map_of\<close> looks a
  key up, \<^const>\<open>AList.update\<close> overwrites the value of a present key in place and appends
  an absent one, as \<^verbatim>\<open>d[k] = v\<close> does.
\<close>

type_synonym dict = "(string \<times> string) list"

text \<open>\<^verbatim>\<open>str(n)\<close> for an integer, as the f-string of \<^verbatim>\<open>_make_key\<close> renders the hash.\<close>

definition digit_char :: "nat \<Rightarrow> char" where
  "digit_char d = char_of (48 + d)"

function str_nat :: "nat \<Rightarrow> string" where
  "str_nat n = (if n < 10 then [digit_char n] else str_nat (n div 10) @ [digit_char (n mod 10)])"
  by pat_completeness auto
termination
  by (relation "measure (\<lambda>n. n)") auto

declare str_nat.simps [simp del]

definition str_int :: "int \<Rightarrow> string" where
  "str_int i = (if i < 0 then CHR ''-'' # str_nat (nat (- i)) else str_nat (nat i))"

text \<open>
  \<^verbatim>\<open>_make_key\<close>. Python's built-in \<^verbatim>\<open>hash\<close> on strings is not part of the repository
  (and is seeded per process), so it is the parameter \<open>py_hash\<close>. \<^verbatim>\<open>context or ""\<close> turns
  an absent context into the empty string; Python's \<^verbatim>\<open>%\<close> with a positive modulus is
  \<^const>\<open>modulo\<close> on \<^typ>\<open>int\<close>.
\<close>

definition context_hash :: "(string \<Rightarrow> int) \<Rightarrow> string option \<Rightarrow> int" where
  "context_hash py_hash ctx = py_hash (case ctx of None \<Rightarrow> [] | Some c \<Rightarrow> c) mod 10000"

definition make_key :: "(string \<Rightarrow> int) \<Rightarrow> string \<Rightarrow> string option \<Rightarrow> string \<Rightarrow> string" where
  "make_key py_hash text ctx output_format =
     output_format @ ''|'' @ str_int (context_hash py_hash ctx) @ ''|'' @ text"

text \<open>\<^verbatim>\<open>get\<close>, \<^verbatim>\<open>set\<close> and \<^verbatim>\<open>set_batch\<close> on the dictionary \<^verbatim>\<open>_data\<close>; the write to
  the cache file that follows a mutation stores the same dictionary.\<close>

definition get :: "(string \<Rightarrow> int) \<Rightarrow> dict \<Rightarrow> string \<Rightarrow> string option \<Rightarrow> string \<Rightarrow> string option" where
  "get py_hash data text ctx output_format = map_of data (make_key py_hash text ctx output_format)"

definition set_entry :: "(string \<Rightarrow> int) \<Rightarrow> dict \<Rightarrow> string \<Rightarrow> string option \<Rightarrow> string \<Rightarrow> string \<Rightarrow> dict" where
  "set_entry py_hash data text ctx output_format translation =
     AList.update (make_key py_hash text ctx output_format) translation data"

fun set_batch :: "(string \<Rightarrow> int) \<Rightarrow> dict \<Rightarrow> dict \<Rightarrow> string option \<Rightarrow> string \<Rightarrow> dict" where
  "set_batch py_hash data [] ctx output_format = data"
| "set_batch py_hash data ((text, translation) # translations) ctx output_format =
     set_batch py_hash
       (AList.update (make_key py_hash text ctx output_format) translation data)
       translations ctx output_format"

section \<open>The batch translation engine: \<^verbatim>\<open>Translator.batch_translate\<close>\<close>

record translator =
  output_format :: string
  max_length :: int
  "context" :: "string option"
  cache :: dict

text \<open>
  The oracle is the external process together with \<^verbatim>\<open>re.search\<close> and \<^verbatim>\<open>json.loads\<close>
  on its output, none of which is code of the repository. One invocation ends in one of
  the ways the \<^verbatim>\<open>try\<close> block of \<^verbatim>\<open>batch_translate\<close> distinguishes. A decoded object
  is the list of its items in order; a value is a string or some other JSON value
  (number, boolean, null, array), on which \<^verbatim>\<open>translated.strip()\<close> raises.
  The prompt that \<^verbatim>\<open>_build_prompt\<close> composes is determined by the to-translate list
  and the translator's format, maximum length and context; the oracle of the model is a
  function of the to-translate list. The messages printed to the error stream are left
  out, and the write of the cache file is taken to succeed.
\<close>

datatype jvalue = JString string | JOther

datatype oracle_result =
    TimeoutExpired
  | OtherException
  | NonZeroExit
  | NoMatch
  | JSONDecodeError
  | Parsed "(string \<times> jvalue) list"

definition failure_sentinel :: string where
  "failure_sentinel = ''translation-failed''"

text \<open>\<^verbatim>\<open>formatted[:n]\<close>: a negative bound counts from the end.\<close>

definition slice_to :: "int \<Rightarrow> string \<Rightarrow> string" where
  "slice_to n s = (if 0 \<le> n then take (nat n) s else take (length s - nat (- n)) s)"

text \<open>The length check of the formatting loop: the value stored for one formatted translation.\<close>

definition length_checked :: "int \<Rightarrow> string \<Rightarrow> string" where
  "length_checked maxlen formatted =
     (if int (length formatted) \<le> maxlen + 10 then formatted else slice_to maxlen formatted)"

text \<open>
  The cache loop over \<^verbatim>\<open>texts\<close>. \<^verbatim>\<open>if cached:\<close> tests truthiness, so an absent entry
  and an empty string both count as a miss. The third accumulator logs the key of every
  \<^verbatim>\<open>cache.get\<close> call.
\<close>

fun check_cache ::
  "(string \<Rightarrow> int) \<Rightarrow> translator \<Rightarrow> string list \<Rightarrow> dict \<Rightarrow> string list \<Rightarrow> string list
     \<Rightarrow> dict \<times> string list \<times> string list" where
  "check_cache py_hash tr [] results texts_to_translate looked = (results, texts_to_translate, looked)"
| "check_cache py_hash tr (text # texts) results texts_to_translate looked =
     (let key = make_key py_hash text (context tr) (output_format tr) in
      case get py_hash (cache tr) text (context tr) (output_format tr) of
        None \<Rightarrow> check_cache py_hash tr texts results (texts_to_translate @ [text]) (looked @ [key])
      | Some cached \<Rightarrow>
          if cached \<noteq> [] then
            check_cache py_hash tr texts (AList.update text cached results) texts_to_translate
              (looked @ [key])
          else check_cache py_hash tr texts results (texts_to_translate @ [text]) (looked @ [key]))"

text \<open>
  The loop over \<^verbatim>\<open>translations.items()\<close>. \<open>Inr\<close> is the dictionary after the loop;
  \<open>Inl\<close> is the dictionary as the loop left it when a value that is not a string raised.
\<close>

fun format_results :: "string \<Rightarrow> int \<Rightarrow> dict \<Rightarrow> (string \<times> jvalue) list \<Rightarrow> dict + dict" where
  "format_results fmt maxlen results [] = Inr results"
| "format_results fmt maxlen results ((original, JOther) # rest) = Inl results"
| "format_results fmt maxlen results ((original, JString translated) # rest) =
     format_results fmt maxlen
       (AList.update original (length_checked maxlen (format_output fmt translated)) results) rest"

text \<open>\<^verbatim>\<open>{**results, **{t: "translation-failed" for t in texts_to_translate}}\<close>\<close>

definition with_failures :: "dict \<Rightarrow> string list \<Rightarrow> dict" where
  "with_failures results texts_to_translate =
     fold (\<lambda>t r. AList.update t failure_sentinel r) texts_to_translate results"

text \<open>
  What one call of \<^verbatim>\<open>batch_translate\<close> does: the dictionary it returns, the cache
  dictionary afterwards, the keys it looked up in the cache, and the to-translate lists it
  built a prompt from and sent to the oracle (none or one).
\<close>

record run =
  result :: dict
  store :: dict
  lookups :: "string list"
  prompts :: "string list list"

definition batch_translate ::
  "(string \<Rightarrow> int) \<Rightarrow> (string list \<Rightarrow> oracle_result) \<Rightarrow> translator \<Rightarrow> string list \<Rightarrow> run" where
  "batch_translate py_hash oracle tr texts =
     (if texts = [] then \<lparr>result = [], store = cache tr, lookups = [], prompts = []\<rparr>
      else
        case check_cache py_hash tr texts [] [] [] of
          (results, texts_to_translate, looked) \<Rightarrow>
            if texts_to_translate = [] then
              \<lparr>result = results, store = cache tr, lookups = looked, prompts = []\<rparr>
            else
              (let failed = \<lparr>result = with_failures results texts_to_translate, store = cache tr,
                              lookups = looked, prompts = [texts_to_translate]\<rparr>
               in (case oracle texts_to_translate of
                     TimeoutExpired \<Rightarrow> failed
                   | OtherException \<Rightarrow> failed
                   | NonZeroExit \<Rightarrow> failed
                   | NoMatch \<Rightarrow> failed
                   | JSONDecodeError \<Rightarrow> failed
                   | Parsed translations \<Rightarrow>
                       (case format_results (output_format tr) (max_length tr) results
                               translations of
                          Inl partial \<Rightarrow>
                            failed\<lparr>result := with_failures partial texts_to_translate\<rparr>
                        | Inr results' \<Rightarrow>
                            (let new_translations =
                                   filter (\<lambda>(k, v). k \<in> set texts_to_translate) results'
                             in \<lparr>result = results',
                                 store = set_batch py_hash (cache tr) new_translations
                                           (context tr) (output_format tr),
                                 lookups = looked, prompts = [texts_to_translate]\<rparr>)))))"

text \<open>\<^verbatim>\<open>translate\<close>: one phrase through the batch engine, with the sentinel as default.\<close>

definition translate ::
  "(string \<Rightarrow> int) \<Rightarrow> (string list \<Rightarrow> oracle_result) \<Rightarrow> translator \<Rightarrow> string \<Rightarrow> string" where
  "translate py_hash oracle tr text =
     (case map_of (result (batch_translate py_hash oracle tr [text])) text of
        None \<Rightarrow> failure_sentinel
      | Some v \<Rightarrow> v)"

section \<open>Vocabulary of the statements\<close>

text \<open>
  A phrase is a cache hit of a translator when the lookup of \<^verbatim>\<open>batch_translate\<close> is
  truthy: an entry is present and is not the empty string. \<open>misses\<close> are the phrases of
  the input, in order and with repetitions, that are not hits; lemma \<open>check_cache_start\<close>
  below shows that they are the to-translate list the cache loop computes.
\<close>

definition lookup :: "(string \<Rightarrow> int) \<Rightarrow> translator \<Rightarrow> string \<Rightarrow> string option" where
  "lookup py_hash tr text = get py_hash (cache tr) text (context tr) (output_format tr)"

definition is_hit :: "(string \<Rightarrow> int) \<Rightarrow> translator \<Rightarrow> string \<Rightarrow> bool" where
  "is_hit py_hash tr text =
     (case lookup py_hash tr text of None \<Rightarrow> False | Some cached \<Rightarrow> cached \<noteq> [])"

definition misses :: "(string \<Rightarrow> int) \<Rightarrow> translator \<Rightarrow> string list \<Rightarrow> string list" where
  "misses py_hash tr texts = filter (\<lambda>t. \<not> is_hit py_hash tr t) texts"

text \<open>The dictionary of cache hits that the cache loop of \<^verbatim>\<open>batch_translate\<close> builds.\<close>

definition hit_results :: "(string \<Rightarrow> int) \<Rightarrow> translator \<Rightarrow> string list \<Rightarrow> dict" where
  "hit_results py_hash tr texts = fst (check_cache py_hash tr texts [] [] [])"

text \<open>The cache key of a phrase under the translator's format and context.\<close>

definition key_of :: "(string \<Rightarrow> int) \<Rightarrow> translator \<Rightarrow> string \<Rightarrow> string" where
  "key_of py_hash tr text = make_key py_hash text (context tr) (output_format tr)"

text \<open>
  A concrete setting for the instances below: a hash function (the length of the string),
  and a translator in kebab-case without context whose cache holds a translation of the
  phrase \<open>a\<close> and an empty translation of the phrase \<open>e\<close>.
\<close>

definition example_hash :: "string \<Rightarrow> int" where
  "example_hash s = int (length s)"

definition example_translator :: translator where
  "example_translator =
     \<lparr>output_format = ''kebab-case'', max_length = 30, context = None,
      cache = [(''kebab-case|0|a'', ''power-board''), (''kebab-case|0|e'', [])]\<rparr>"

text \<open>The number a decimal rendering stands for, used to show that \<^const>\<open>str_nat\<close> is
  injective.\<close>

definition digits_value :: "string \<Rightarrow> nat" where
  "digits_value s = foldl (\<lambda>a c. 10 * a + (of_char c - 48)) 0 s"

section \<open>The formatting table\<close>

text \<open>
  Claim C8. The formatter produces the six rows of the specification's formatting table:
  "Power Board" gives "power-board" in kebab-case, "power_board" in snake_case and
  "powerBoard" in camelCase; "power board test" gives "PowerBoardTest" in PascalCase;
  "Power-Board" gives "powerboard" in lowercase; "power board" gives "POWER_BOARD" in
  UPPERCASE.
\<close>

theorem format_output_table:
  "format_output ''kebab-case'' ''Power Board'' = ''power-board'' \<and>
   format_output ''snake_case'' ''Power Board'' = ''power_board'' \<and>
   format_output ''camelCase'' ''Power Board'' = ''powerBoard'' \<and>
   format_output ''PascalCase'' ''power board test'' = ''PowerBoardTest'' \<and>
   format_output ''lowercase'' ''Power-Board'' = ''powerboard'' \<and>
   format_output ''UPPERCASE'' ''power board'' = ''POWER_BOARD''"
  by code_simp

section \<open>Re-applying the formatter\<close>

subsection \<open>Characters\<close>




lemma of_char_upper_char:
  "(of_char (upper_char c) :: nat) =
     (if 97 \<le> (of_char c :: nat) \<and> (of_char c :: nat) \<le> 122 then of_char c - 32 else of_char c)"
  by (auto simp: upper_char_def Let_def of_char_of)

lemma is_quote_code: "is_quote c \<longleftrightarrow> (of_char c :: nat) = 34 \<or> (of_char c :: nat) = 39"
  using of_char_eq_iff [of c "CHR 0x22", where ?'a = nat] of_char_eq_iff [of c "CHR 0x27", where ?'a = nat]
  by (simp add: is_quote_def)

lemma is_quote_upper_char: "is_quote (upper_char c) = is_quote c"
  by (auto simp: is_quote_code of_char_upper_char)


subsection \<open>Replacing runs\<close>






subsection \<open>The cleaned text\<close>









section \<open>Cache keys and context sensitivity\<close>

lemma digit_char_value: "d < 10 \<Longrightarrow> (of_char (digit_char d) :: nat) - 48 = d"
  by (simp add: digit_char_def)

lemma digits_value_str_nat: "digits_value (str_nat n) = n"
proof (induction n rule: str_nat.induct)
  case (1 n)
  show ?case
  proof (cases "n < 10")
    case True
    then show ?thesis
      by (subst str_nat.simps) (simp add: digits_value_def digit_char_value)
  next
    case False
    have "digits_value (str_nat n) = 10 * digits_value (str_nat (n div 10)) + n mod 10"
      using False by (subst str_nat.simps) (simp add: digits_value_def digit_char_value)
    with 1 False show ?thesis by simp
  qed
qed

lemma str_nat_inject: "str_nat m = str_nat n \<Longrightarrow> m = n"
  by (metis digits_value_str_nat)

lemma str_int_bucket_inject:
  "0 \<le> a \<Longrightarrow> 0 \<le> b \<Longrightarrow> str_int a = str_int b \<Longrightarrow> a = b"
  by (auto simp: str_int_def dest: str_nat_inject)

lemma context_hash_nonneg: "0 \<le> context_hash h ctx"
  by (simp add: context_hash_def)

lemma make_key_text_inject:
  "make_key h t ctx f = make_key h t' ctx f \<longleftrightarrow> t = t'"
  by (simp add: make_key_def)

lemma make_key_context_eq:
  "make_key h p ctxA f = make_key h p ctxB f \<longleftrightarrow> context_hash h ctxA = context_hash h ctxB"
  by (auto simp: make_key_def dest: str_int_bucket_inject [OF context_hash_nonneg context_hash_nonneg])

lemma get_set_entry:
  "get h (set_entry h data p ctxA f x) q ctxB g =
     (if make_key h q ctxB g = make_key h p ctxA f then Some x else get h data q ctxB g)"
  by (simp add: get_def set_entry_def update_conv')

lemma bucket_collision:
  "\<exists>m n. m < n \<and>
     context_hash h (Some (replicate m CHR ''a'')) = context_hash h (Some (replicate n CHR ''a''))"
proof -
  let ?g = "\<lambda>n::nat. context_hash h (Some (replicate n CHR ''a''))"
  let ?A = "{..<Suc (10000::nat)}"
  have sub: "?g ` ?A \<subseteq> {0..<10000}"
    by (auto simp: context_hash_def)
  have "card (?g ` ?A) \<le> card {0..<10000::int}"
    by (rule card_mono [OF _ sub]) simp
  also have "\<dots> < card ?A"
    by simp
  finally have "\<not> inj_on ?g ?A"
    by (rule pigeonhole)
  then obtain m n where "m \<noteq> n" "?g m = ?g n"
    unfolding inj_on_def by blast
  then have "m < n \<or> n < m"
    by arith
  then show ?thesis
  proof
    assume "m < n"
    with \<open>?g m = ?g n\<close> show ?thesis by blast
  next
    assume "n < m"
    with \<open>?g m = ?g n\<close> [symmetric] show ?thesis by blast
  qed
qed

text \<open>
  Claim C3, as stated, fails: whatever the hash function is, it has only 10000 buckets, so
  two distinct context strings exist that share a bucket, and an entry stored under the
  first is returned by a lookup under the second.
\<close>

theorem context_collision:
  "\<forall>py_hash. \<exists>ctxA ctxB. ctxA \<noteq> ctxB \<and>
     get py_hash (set_entry py_hash [] ''p'' (Some ctxA) ''kebab-case'' ''x'') ''p'' (Some ctxB) ''kebab-case''
       = Some ''x''"
proof
  fix h :: "string \<Rightarrow> int"
  obtain m n where mn: "m < n"
    "context_hash h (Some (replicate m CHR ''a'')) = context_hash h (Some (replicate n CHR ''a''))"
    using bucket_collision by blast
  have neq: "replicate m CHR ''a'' \<noteq> replicate n CHR ''a''"
  proof
    assume "replicate m CHR ''a'' = replicate n CHR ''a''"
    then have "length (replicate m CHR ''a'') = length (replicate n CHR ''a'')" by (rule arg_cong)
    with mn(1) show False by simp
  qed
  have "get h (set_entry h [] ''p'' (Some (replicate m CHR ''a'')) ''kebab-case'' ''x'') ''p''
          (Some (replicate n CHR ''a'')) ''kebab-case'' = Some ''x''"
    using mn(2) by (simp add: get_set_entry make_key_context_eq)
  with neq show "\<exists>ctxA ctxB. ctxA \<noteq> ctxB \<and>
     get h (set_entry h [] ''p'' (Some ctxA) ''kebab-case'' ''x'') ''p'' (Some ctxB) ''kebab-case''
       = Some ''x''"
    by blast
qed

text \<open>
  Claim C3, as amended. After \<^verbatim>\<open>set(p, ctxA, f, x)\<close> a lookup \<^verbatim>\<open>get(p, ctxB, f)\<close>
  returns \<open>x\<close> when the two contexts fall into the same hash bucket (hash modulo 10000),
  and otherwise what the store held for \<open>(p, ctxB, f)\<close> before the \<^verbatim>\<open>set\<close>; on a store
  that was empty it is absent exactly when the buckets differ.
\<close>

theorem context_bucket:
  "get h (set_entry h data p ctxA f x) p ctxB f =
     (if context_hash h ctxA = context_hash h ctxB then Some x else get h data p ctxB f) \<and>
   get h (set_entry h [] p ctxA f x) p ctxB f =
     (if context_hash h ctxA = context_hash h ctxB then Some x else None)"
  by (simp add: get_set_entry make_key_context_eq eq_commute) (simp add: get_def)

section \<open>Lemmas about the loops of the engine\<close>

subsection \<open>The cache loop\<close>

lemma check_cache_todo:
  "fst (snd (check_cache h tr texts results todo looked)) = todo @ misses h tr texts"
  by (induction texts arbitrary: results todo looked)
     (auto simp: is_hit_def lookup_def misses_def Let_def split: option.splits)

lemma check_cache_looked:
  "snd (snd (check_cache h tr texts results todo looked)) =
     looked @ map (\<lambda>t. make_key h t (context tr) (output_format tr)) texts"
  by (induction texts arbitrary: results todo looked)
     (auto simp: Let_def split: option.splits)

lemma check_cache_results:
  "map_of (fst (check_cache h tr texts results todo looked)) k =
     (if k \<in> set texts \<and> is_hit h tr k then lookup h tr k else map_of results k)"
  by (induction texts arbitrary: results todo looked)
     (auto simp: is_hit_def lookup_def Let_def update_conv' split: option.splits)

lemma check_cache_distinct:
  "distinct (map fst results) \<Longrightarrow>
   distinct (map fst (fst (check_cache h tr texts results todo looked)))"
  by (induction texts arbitrary: results todo looked)
     (auto simp: Let_def distinct_update split: option.splits)

subsection \<open>The failure dictionary\<close>

lemma map_of_with_failures:
  "map_of (with_failures r todo) k =
     (if k \<in> set todo then Some failure_sentinel else map_of r k)"
  unfolding with_failures_def
  by (induction todo arbitrary: r) (auto simp: update_conv')

lemma distinct_with_failures:
  "distinct (map fst r) \<Longrightarrow> distinct (map fst (with_failures r todo))"
  unfolding with_failures_def
  by (induction todo arbitrary: r) (auto simp: distinct_update)

subsection \<open>The formatting loop\<close>





lemma format_results_strings:
  "format_results fmt m results kvs = Inr r' \<Longrightarrow> (k, v) \<in> set kvs \<Longrightarrow> \<exists>s. v = JString s"
  by (induction fmt m results kvs rule: format_results.induct) auto

lemma format_results_distinct:
  "format_results fmt m results kvs = res \<Longrightarrow> distinct (map fst results) \<Longrightarrow>
   distinct (map fst (case res of Inl r \<Rightarrow> r | Inr r \<Rightarrow> r))"
  by (induction fmt m results kvs arbitrary: res rule: format_results.induct)
     (auto simp: distinct_update)


subsection \<open>The batched write\<close>



subsection \<open>The five ways a call ends\<close>

lemma check_cache_start:
  "check_cache h tr texts [] [] [] =
     (hit_results h tr texts, misses h tr texts, map (key_of h tr) texts)"
proof -
  obtain a b c where abc: "check_cache h tr texts [] [] [] = (a, b, c)"
    by (cases "check_cache h tr texts [] [] []") auto
  have "a = hit_results h tr texts"
    by (simp add: hit_results_def abc)
  moreover have "b = misses h tr texts"
    using check_cache_todo [of h tr texts "[]" "[]" "[]"] by (simp add: abc)
  moreover have "c = map (key_of h tr) texts"
    using check_cache_looked [of h tr texts "[]" "[]" "[]"] by (simp add: abc key_of_def)
  ultimately show ?thesis by (simp add: abc)
qed

lemma misses_Nil: "misses h tr [] = []"
  by (simp add: misses_def)

lemma hit_results_map:
  "map_of (hit_results h tr texts) k =
     (if k \<in> set texts \<and> is_hit h tr k then lookup h tr k else None)"
  by (simp add: hit_results_def check_cache_results)

lemma hit_results_distinct: "distinct (map fst (hit_results h tr texts))"
  by (simp add: hit_results_def check_cache_distinct)

lemma hit_results_Nil: "hit_results h tr [] = []"
  by (simp add: hit_results_def)

lemma batch_translate_all_hits:
  "misses h tr texts = [] \<Longrightarrow>
   batch_translate h oracle tr texts =
     \<lparr>result = hit_results h tr texts, store = cache tr,
      lookups = map (key_of h tr) texts, prompts = []\<rparr>"
  by (cases "texts = []")
     (simp_all add: batch_translate_def check_cache_start hit_results_Nil)

lemma batch_translate_failed:
  "misses h tr texts \<noteq> [] \<Longrightarrow>
   oracle (misses h tr texts) \<in> {TimeoutExpired, OtherException, NonZeroExit, NoMatch, JSONDecodeError} \<Longrightarrow>
   batch_translate h oracle tr texts =
     \<lparr>result = with_failures (hit_results h tr texts) (misses h tr texts), store = cache tr,
      lookups = map (key_of h tr) texts, prompts = [misses h tr texts]\<rparr>"
  by (cases "texts = []")
     (auto simp: batch_translate_def check_cache_start misses_Nil)



lemma batch_translate_lookups:
  "lookups (batch_translate h oracle tr texts) = map (key_of h tr) texts"
  by (cases "texts = []")
     (auto simp: batch_translate_def check_cache_start Let_def
           split: oracle_result.splits sum.splits)

lemma batch_translate_prompts:
  "prompts (batch_translate h oracle tr texts) =
     (if misses h tr texts = [] then [] else [misses h tr texts])"
  by (cases "texts = []")
     (auto simp: batch_translate_def check_cache_start Let_def misses_Nil
           split: oracle_result.splits sum.splits)

lemma batch_translate_distinct:
  "distinct (map fst (result (batch_translate h oracle tr texts)))"
proof (cases "texts = []")
  case True
  then show ?thesis by (simp add: batch_translate_def)
next
  case False
  note d = hit_results_distinct [of h tr texts]
  have f: "\<And>kvs res. format_results (output_format tr) (max_length tr) (hit_results h tr texts) kvs = res \<Longrightarrow>
        distinct (map fst (case res of Inl r \<Rightarrow> r | Inr r \<Rightarrow> r))"
    using format_results_distinct d by blast
  show ?thesis
    using False d
    by (auto simp: batch_translate_def check_cache_start Let_def distinct_with_failures
             split: oracle_result.splits sum.splits dest: f)
qed

lemma set_misses: "set (misses h tr texts) = {t \<in> set texts. \<not> is_hit h tr t}"
  by (auto simp: misses_def)

subsection \<open>What a successful call writes to the cache\<close>

lemma key_of_inject: "key_of h tr t = key_of h tr t' \<longleftrightarrow> t = t'"
  by (simp add: key_of_def make_key_text_inject)





subsection \<open>Where the values of a result come from\<close>


subsection \<open>The example setting\<close>

lemma str_int_0: "str_int 0 = ''0''"
  by code_simp

lemma example_key: "key_of example_hash example_translator t = ''kebab-case|0|'' @ t"
  by (simp add: key_of_def make_key_def example_translator_def context_hash_def example_hash_def
        str_int_0)

lemma example_lookup:
  "lookup example_hash example_translator t =
     map_of [(''kebab-case|0|a'', ''power-board''), (''kebab-case|0|e'', [])] (''kebab-case|0|'' @ t)"
  using example_key [of t]
  by (simp add: lookup_def get_def key_of_def) (simp add: example_translator_def)

lemma example_hits:
  "is_hit example_hash example_translator ''a''"
  "\<not> is_hit example_hash example_translator ''b''"
  "\<not> is_hit example_hash example_translator ''e''"
  by (simp_all add: is_hit_def example_lookup)

lemma example_misses:
  "misses example_hash example_translator [''a'', ''b''] = [''b'']"
  "misses example_hash example_translator [''a'', ''e''] = [''e'']"
  by (simp_all add: misses_def example_hits)



subsection \<open>Counting occurrences\<close>

lemma count_list_map_inj:
  "(\<And>x. f x = f y \<longleftrightarrow> x = y) \<Longrightarrow> count_list (map f xs) (f y) = count_list xs y"
  by (induction xs) auto

lemma count_list_filter:
  "count_list (filter P xs) y = (if P y then count_list xs y else 0)"
  by (induction xs) auto

subsection \<open>The length check\<close>






subsection \<open>A second call on the cache the first call left\<close>







lemma format_short:
  "length_checked 30 (format_output ''kebab-case'' ''x'') = ''x''"
  "length_checked 30 (format_output ''kebab-case'' ''y'') = ''y''"
  "length_checked 30 (format_output ''kebab-case'' []) = []"
  by code_simp+





section \<open>Failure of the oracle\<close>

text \<open>
  Claim C6. When the oracle invoked for the misses of a call times out, exits non-zero, or
  returns output with no brace-delimited object or one that does not decode, the call
  leaves the cache store unchanged, maps every to-translate phrase to the failure sentinel,
  maps every cache hit to its cached value, and has no other entry. The call returns a
  dictionary in each of these cases: \<^const>\<open>batch_translate\<close> is a total function.
\<close>

theorem oracle_failure_resolves_to_sentinel:
  assumes "oracle (misses h tr texts) \<in> {TimeoutExpired, NonZeroExit, NoMatch, JSONDecodeError}"
  shows "store (batch_translate h oracle tr texts) = cache tr \<and>
         (\<forall>t\<in>set (misses h tr texts).
            map_of (result (batch_translate h oracle tr texts)) t = Some failure_sentinel) \<and>
         (\<forall>t\<in>set texts. is_hit h tr t \<longrightarrow>
            map_of (result (batch_translate h oracle tr texts)) t = lookup h tr t) \<and>
         (\<forall>k. k \<notin> set texts \<longrightarrow> map_of (result (batch_translate h oracle tr texts)) k = None)"
proof (cases "misses h tr texts = []")
  case True
  then show ?thesis
    by (simp add: batch_translate_all_hits hit_results_map)
next
  case False
  from assms have "oracle (misses h tr texts) \<in>
      {TimeoutExpired, OtherException, NonZeroExit, NoMatch, JSONDecodeError}"
    by auto
  from batch_translate_failed [of h tr texts "oracle", OF False this] show ?thesis
    by (simp add: map_of_with_failures hit_results_map set_misses)
qed

text \<open>An instance: the oracle times out on a call with one hit and one miss.\<close>

theorem oracle_failure_instance:
  "(\<lambda>_. TimeoutExpired) (misses example_hash example_translator [''a'', ''b''])
     \<in> {TimeoutExpired, NonZeroExit, NoMatch, JSONDecodeError} \<and>
   store (batch_translate example_hash (\<lambda>_. TimeoutExpired) example_translator [''a'', ''b''])
     = cache example_translator \<and>
   map_of (result (batch_translate example_hash (\<lambda>_. TimeoutExpired) example_translator [''a'', ''b'']))
     ''b'' = Some ''translation-failed'' \<and>
   map_of (result (batch_translate example_hash (\<lambda>_. TimeoutExpired) example_translator [''a'', ''b'']))
     ''a'' = Some ''power-board''"
proof -
  have a: "(\<lambda>_. TimeoutExpired) (misses example_hash example_translator [''a'', ''b''])
     \<in> {TimeoutExpired, NonZeroExit, NoMatch, JSONDecodeError}"
    by simp
  from oracle_failure_resolves_to_sentinel [of "\<lambda>_. TimeoutExpired", OF a]
  show ?thesis
    by (simp add: example_misses example_hits example_lookup failure_sentinel_def)
qed

section \<open>Empty cached translations\<close>

text \<open>
  Claim C9. A phrase of the input whose cached translation is the empty string is not a
  cache hit: it is put on the to-translate list and the oracle is invoked with that list,
  whatever the oracle answers, although the cache holds an entry for the phrase.
\<close>

theorem empty_cached_translation_is_a_miss:
  assumes "get h (cache tr) p (context tr) (output_format tr) = Some []" and "p \<in> set texts"
  shows "\<not> is_hit h tr p \<and> p \<in> set (misses h tr texts) \<and>
         prompts (batch_translate h oracle tr texts) = [misses h tr texts]"
proof -
  from assms(1) have nh: "\<not> is_hit h tr p"
    by (simp add: is_hit_def lookup_def)
  with assms(2) have m: "p \<in> set (misses h tr texts)"
    by (simp add: set_misses)
  then have "misses h tr texts \<noteq> []" by auto
  with nh m show ?thesis
    by (simp add: batch_translate_prompts)
qed

text \<open>An instance: the phrase \<open>e\<close> is cached as the empty string and is sent to the oracle.\<close>

theorem empty_cached_translation_instance:
  "get example_hash (cache example_translator) ''e'' (context example_translator)
     (output_format example_translator) = Some [] \<and>
   ''e'' \<in> set [''a'', ''e''] \<and>
   prompts (batch_translate example_hash (\<lambda>_. NoMatch) example_translator [''a'', ''e'']) = [[''e'']]"
proof -
  have a: "get example_hash (cache example_translator) ''e'' (context example_translator)
     (output_format example_translator) = Some []"
    using example_lookup [of "''e''"] by (simp add: lookup_def)
  have b: "''e'' \<in> set [''a'', ''e'']" by simp
  from empty_cached_translation_is_a_miss [OF a b, of "\<lambda>_. NoMatch"] a b
  show ?thesis
    by (simp add: example_misses)
qed

section \<open>Keys of the oracle's response\<close>



section \<open>A phrase the oracle drops\<close>

text \<open>
  Claim C1 says that every to-translate phrase that is absent from the parsed response maps
  to the failure sentinel in the returned dictionary. On an empty cache, with the phrases
  \<open>a\<close> and \<open>b\<close> and an oracle that answers for \<open>a\<close> only, \<^verbatim>\<open>batch_translate\<close>
  returns the single entry for \<open>a\<close>: \<open>b\<close> has no entry at all. The failure branches
  of the same function give every to-translate phrase the sentinel, and \<^verbatim>\<open>translate\<close>
  supplies the sentinel for a dropped phrase through its default.
\<close>

theorem dropped_phrase_has_no_entry:
  "result (batch_translate h (\<lambda>_. Parsed [(''a'', JString ''x'')])
     \<lparr>output_format = ''kebab-case'', max_length = 30, context = None, cache = []\<rparr>
     [''a'', ''b'']) = [(''a'', ''x'')] \<and>
   translate h (\<lambda>_. Parsed [])
     \<lparr>output_format = ''kebab-case'', max_length = 30, context = None, cache = []\<rparr> ''b''
     = ''translation-failed''"
  by (simp add: batch_translate_def translate_def get_def Let_def format_short failure_sentinel_def)

section \<open>Duplicate phrases\<close>

text \<open>
  Claim C5, as stated, fails: for the input with the phrase \<open>p\<close> twice and an empty
  cache, whatever the hash function is, the cache is looked up twice under the key of
  \<open>p\<close>, and the to-translate list sent to the oracle holds \<open>p\<close> twice.
\<close>

theorem duplicate_phrase_is_probed_twice:
  "\<forall>h. lookups (batch_translate h (\<lambda>_. Parsed [(''p'', JString ''x'')])
          \<lparr>output_format = ''kebab-case'', max_length = 30, context = None, cache = []\<rparr>
          [''p'', ''p''])
        = [make_key h ''p'' None ''kebab-case'', make_key h ''p'' None ''kebab-case''] \<and>
       prompts (batch_translate h (\<lambda>_. Parsed [(''p'', JString ''x'')])
          \<lparr>output_format = ''kebab-case'', max_length = 30, context = None, cache = []\<rparr>
          [''p'', ''p''])
        = [[''p'', ''p'']]"
  by (simp add: batch_translate_def get_def Let_def)

text \<open>
  Claim C5, as amended. The cache loop runs over the input as given: the cache is looked up
  once per occurrence of a phrase, in input order; a phrase that misses is on the
  to-translate list once per occurrence; at most one prompt, built from that list, goes to
  the oracle per call; and the returned dictionary has no key twice.
\<close>

theorem duplicates_collapse_only_in_the_result:
  "lookups (batch_translate h oracle tr texts) = map (key_of h tr) texts \<and>
   count_list (lookups (batch_translate h oracle tr texts)) (key_of h tr p) = count_list texts p \<and>
   prompts (batch_translate h oracle tr texts) =
     (if misses h tr texts = [] then [] else [misses h tr texts]) \<and>
   count_list (misses h tr texts) p = (if is_hit h tr p then 0 else count_list texts p) \<and>
   distinct (map fst (result (batch_translate h oracle tr texts)))"
proof -
  have "count_list (map (key_of h tr) texts) (key_of h tr p) = count_list texts p"
    by (rule count_list_map_inj) (simp add: key_of_inject)
  moreover have "count_list (misses h tr texts) p = (if is_hit h tr p then 0 else count_list texts p)"
    by (simp add: misses_def count_list_filter)
  ultimately show ?thesis
    by (simp add: batch_translate_lookups batch_translate_prompts batch_translate_distinct)
qed

section \<open>The length check of the formatted translations\<close>




section \<open>Calling twice\<close>





end
